theory Spec2Isabelle
  imports Main "HOL-Library.Word"
begin

unbundle bit_operations_syntax

section \<open>The wayland module of fcitx5: data model\<close>

text \<open>
  The embedding follows \<^verbatim>\<open>src/modules/wayland/waylandmodule.cpp\<close>. The calls the module
  makes to its collaborators while it runs (subscriber callbacks, \<^verbatim>\<open>instance_->exit()\<close>,
  the \<^verbatim>\<open>wl_display_*\<close> calls of the pump, the reading and saving of \<^verbatim>\<open>kxkbrc\<close>, the xkb
  parameters, the bus signal) are recorded, in program order, as \<open>event\<close>s appended to
  the \<open>trace\<close> field of the module state. What the collaborators answer (the pointer
  \<^verbatim>\<open>wl_display_connect\<close> returns, the integers the other \<^verbatim>\<open>wl_display_*\<close> calls return,
  the desktop type, the content of \<^verbatim>\<open>kxkbrc\<close>) is an argument of the operation that asks.
  The construction and the destruction of a connection leave no event (the event source
  and the focus group live and die with the record of the connection). Of the logging,
  the error line of the pump is an event, because it prints the member \<^verbatim>\<open>error_\<close>; the
  debug lines (\<^verbatim>\<open>FCITX_DEBUG\<close>) are not modelled. Callbacks are opaque: a call is an
  event, and a callback neither throws nor calls back into the module.
\<close>

type_synonym display = nat
  \<comment> \<open>the \<^verbatim>\<open>wl_display *\<close> handle owned by a connection\<close>

type_synonym callback = nat
  \<comment> \<open>a subscriber, by identity\<close>

type_synonym RawConfig = "(string \<times> string) list"
  \<comment> \<open>\<^verbatim>\<open>fcitx::RawConfig\<close>, flattened: path to value, in insertion order\<close>

datatype error = RuntimeError string
  \<comment> \<open>\<^verbatim>\<open>std::runtime_error\<close>, the one exception the file throws\<close>

datatype event =
    CreatedCallback callback string display string
      \<comment> \<open>\<^verbatim>\<open>callback(conn.name(), *conn.display(), conn.focusGroup())\<close>\<close>
  | ClosedCallback callback string display
      \<comment> \<open>\<^verbatim>\<open>callback(conn.name(), *conn.display())\<close>\<close>
  | InstanceExit
      \<comment> \<open>\<^verbatim>\<open>instance_->exit()\<close>\<close>
  | WlPrepareRead display
  | WlReadEvents display
  | WlDispatch display
  | WlGetError display
  | LogError int
      \<comment> \<open>\<^verbatim>\<open>FCITX_LOG_IF(Error, error_ != 0) << ... << error_\<close>\<close>
  | WlFlush display
  | ReadAsIni string
  | SetXkbParameters string string string string
  | SafeSaveAsIni string RawConfig
  | SendSignal string string string "string list"
      \<comment> \<open>path, interface, member, and the arguments appended to the message\<close>

record WaylandConnection =
  conn_name :: string
  conn_display :: display
  conn_group :: string
    \<comment> \<open>the display string of the \<^verbatim>\<open>FocusGroup\<close>\<close>
  conn_error :: int

text \<open>
  Fields carry the names of the members without the trailing underscore, those of a
  connection with the prefix \<open>conn\<close> (\<^verbatim>\<open>name_\<close> is \<open>conn_name\<close>).
  \<^verbatim>\<open>conns_\<close> is a \<^verbatim>\<open>std::unordered_map<std::string, WaylandConnection>\<close>: here the list of
  its entries in iteration order. That no key occurs twice is not built into the type;
  it is an invariant of the operations, proved below. The two handler tables are the
  lists of their callbacks in insertion order, which is the order of \<^verbatim>\<open>view()\<close>.
  \<open>exitWhenMainDisplayDisconnected\<close> is the option of that name of the \<^verbatim>\<open>Instance\<close>.
\<close>

record WaylandModule =
  conns :: "(string \<times> WaylandConnection) list"
  createdCallbacks :: "callback list"
  closedCallbacks :: "callback list"
  isWaylandSession :: bool
  exitWhenMainDisplayDisconnected :: bool
  trace :: "event list"

section \<open>Strings and the connection map\<close>

text \<open>
  A \<^verbatim>\<open>std::string\<close> may hold the byte 0; the \<^verbatim>\<open>const char *\<close> that \<^verbatim>\<open>c_str()\<close> hands
  out, read as a C string, ends at the first one.
\<close>

definition c_str :: "string \<Rightarrow> string" where
  "c_str s = takeWhile (\<lambda>c. c \<noteq> CHR 0x00) s"

text \<open>
  \<^verbatim>\<open>conns_.find(name)\<close> is \<^const>\<open>map_of\<close>. \<^verbatim>\<open>conns_.erase(iter)\<close> removes the one entry the
  iterator points to, which is the entry \<^verbatim>\<open>find\<close> returned.
\<close>

fun erase :: "string \<Rightarrow> (string \<times> 'a) list \<Rightarrow> (string \<times> 'a) list" where
  "erase key [] = []"
| "erase key (p # ps) = (if fst p = key then ps else p # erase key ps)"

text \<open>
  \<^verbatim>\<open>conns_.emplace(std::piecewise_construct, ...)\<close>: the new element is constructed from
  the arguments first (the library needs the element to hash its key), so an exception
  of the constructor leaves the map as it was; then, if the key is already there, the
  new element is destroyed and the iterator points to the old entry.
  The result is the map and the element \<^verbatim>\<open>iter.first->second\<close>. Where a new entry
  lands in the iteration order is up to the library; here it is the end.
\<close>

definition emplace ::
  "string \<Rightarrow> error + 'a \<Rightarrow> (string \<times> 'a) list \<Rightarrow> error + ((string \<times> 'a) list \<times> 'a)" where
  "emplace key constructed entries =
     (case constructed of
        Inl e \<Rightarrow> Inl e
      | Inr element \<Rightarrow>
          (case map_of entries key of
             Some existing \<Rightarrow> Inr (entries, existing)
           | None \<Rightarrow> Inr (entries @ [(key, element)], element)))"

section \<open>WaylandConnection\<close>

text \<open>
  The constructor. Its first argument is what \<^verbatim>\<open>wl_display_connect(name)\<close> returns
  (\<open>None\<close> is the null pointer), its second the \<^verbatim>\<open>const char *name\<close> (\<open>None\<close> is
  \<^verbatim>\<open>nullptr\<close>). The registration with the event loop is what later calls \<open>onIOEvent\<close>.
\<close>

definition WaylandConnection_ctor ::
  "display option \<Rightarrow> string option \<Rightarrow> error + WaylandConnection" where
  "WaylandConnection_ctor wl_display_connect name =
     (let n = (case name of None \<Rightarrow> [] | Some cs \<Rightarrow> cs) in
      case wl_display_connect of
        None \<Rightarrow> Inl (RuntimeError ''Failed to open wayland connection'')
      | Some display \<Rightarrow>
          Inr \<lparr>conn_name = n, conn_display = display, conn_group = ''wayland:'' @ n, conn_error = 0\<rparr>)"

section \<open>WaylandModule: the registry\<close>

definition onConnectionCreated :: "WaylandConnection \<Rightarrow> WaylandModule \<Rightarrow> WaylandModule" where
  "onConnectionCreated conn s =
     s\<lparr>trace := trace s @
          map (\<lambda>callback. CreatedCallback callback (conn_name conn) (conn_display conn) (conn_group conn))
            (createdCallbacks s)\<rparr>"

definition onConnectionClosed :: "WaylandConnection \<Rightarrow> WaylandModule \<Rightarrow> WaylandModule" where
  "onConnectionClosed conn s =
     s\<lparr>trace := trace s @
          map (\<lambda>callback. ClosedCallback callback (conn_name conn) (conn_display conn))
            (closedCallbacks s)\<rparr>"

text \<open>
  \<open>openDisplay\<close> returns \<open>Inr\<close> of the new state when it returns normally and \<open>Inl\<close>
  when an exception leaves it. The \<^verbatim>\<open>catch\<close> clause takes every \<^verbatim>\<open>std::exception\<close>.
\<close>

definition openDisplay :: "display option \<Rightarrow> string \<Rightarrow> WaylandModule \<Rightarrow> error + WaylandModule" where
  "openDisplay wl_display_connect name s =
     (let displayString = (if name \<noteq> [] then Some (c_str name) else None) in
      case emplace name (WaylandConnection_ctor wl_display_connect displayString) (conns s) of
        Inr (conns', conn) \<Rightarrow> Inr (onConnectionCreated conn (s\<lparr>conns := conns'\<rparr>))
      | Inl (RuntimeError e) \<Rightarrow> Inr s)"

definition removeDisplay :: "string \<Rightarrow> WaylandModule \<Rightarrow> WaylandModule" where
  "removeDisplay name s =
     (let s' = (case map_of (conns s) name of
                  Some conn \<Rightarrow> (onConnectionClosed conn s)\<lparr>conns := erase name (conns s)\<rparr>
                | None \<Rightarrow> s)
      in if name = [] \<and> exitWhenMainDisplayDisconnected s' \<and> isWaylandSession s'
         then s'\<lparr>trace := trace s' @ [InstanceExit]\<rparr>
         else s')"

text \<open>
  The parameter of \<^verbatim>\<open>removeDisplay\<close> is a reference, \<^verbatim>\<open>const std::string &name\<close>.
  \<open>removeDisplay\<close> above is the call with a string of the caller's, which outlives the
  call. \<^verbatim>\<open>finish()\<close> passes \<^verbatim>\<open>name_\<close>, a member of the connection itself, and
  \<open>removeDisplay_ref\<close> is that call: \<open>owner\<close> is the key under which the connection that
  owns the string is stored. \<^verbatim>\<open>conns_.erase(iter)\<close> in line 141 destroys the connection of
  the entry it removes and with it that connection's \<^verbatim>\<open>name_\<close>. When this is the string
  \<open>name\<close> refers to, which is when the entry found is the owner's, \<^verbatim>\<open>name.empty()\<close> in line
  143 reads a destroyed string. What that read answers is not defined by the language;
  the model takes the answer as the argument \<open>stale_empty\<close> and fixes nothing about it.
\<close>

definition removeDisplay_ref :: "string \<Rightarrow> bool \<Rightarrow> string \<Rightarrow> WaylandModule \<Rightarrow> WaylandModule" where
  "removeDisplay_ref owner stale_empty name s =
     (let found = map_of (conns s) name;
          s' = (case found of
                  Some conn \<Rightarrow> (onConnectionClosed conn s)\<lparr>conns := erase name (conns s)\<rparr>
                | None \<Rightarrow> s);
          name_empty = (if found \<noteq> None \<and> owner = name then stale_empty else name = [])
      in if name_empty \<and> exitWhenMainDisplayDisconnected s' \<and> isWaylandSession s'
         then s'\<lparr>trace := trace s' @ [InstanceExit]\<rparr>
         else s')"

definition addConnectionCreatedCallback :: "callback \<Rightarrow> WaylandModule \<Rightarrow> WaylandModule" where
  "addConnectionCreatedCallback callback s =
     (let s' = s\<lparr>createdCallbacks := createdCallbacks s @ [callback]\<rparr> in
      s'\<lparr>trace := trace s' @
           map (\<lambda>p. CreatedCallback callback (conn_name (snd p)) (conn_display (snd p)) (conn_group (snd p)))
             (conns s')\<rparr>)"

definition addConnectionClosedCallback :: "callback \<Rightarrow> WaylandModule \<Rightarrow> WaylandModule" where
  "addConnectionClosedCallback callback s =
     s\<lparr>closedCallbacks := closedCallbacks s @ [callback]\<rparr>"

section \<open>The pump of a connection\<close>

text \<open>
  \<^verbatim>\<open>IOEventFlags\<close> is a bit set over \<^verbatim>\<open>IOEventFlag\<close>; the bits are those of
  \<^verbatim>\<open>fcitx-utils/event.h\<close>. \<open>flags AND m \<noteq> 0\<close> is the conversion of
  \<^verbatim>\<open>flags & IOEventFlag::m\<close> to \<^verbatim>\<open>bool\<close>.
\<close>

type_synonym IOEventFlags = "32 word"

definition IOEventFlag_In :: IOEventFlags where "IOEventFlag_In = 1"
definition IOEventFlag_Out :: IOEventFlags where "IOEventFlag_Out = 2"
definition IOEventFlag_Err :: IOEventFlags where "IOEventFlag_Err = 4"
definition IOEventFlag_Hup :: IOEventFlags where "IOEventFlag_Hup = 8"

text \<open>What the wayland client library answers during one pump.\<close>

record wl_answers =
  wl_display_prepare_read :: int
  wl_display_dispatch :: int
  wl_display_get_error :: int

text \<open>
  \<^verbatim>\<open>finish()\<close> of the connection \<open>this\<close> that is stored under \<open>key\<close>:
  \<^verbatim>\<open>parent_->removeDisplay(name_)\<close>, with the member passed by reference.
\<close>

definition finish :: "bool \<Rightarrow> string \<Rightarrow> WaylandConnection \<Rightarrow> WaylandModule \<Rightarrow> WaylandModule" where
  "finish stale_empty key this s = removeDisplay_ref key stale_empty (conn_name this) s"

definition log_event :: "event \<Rightarrow> WaylandModule \<Rightarrow> WaylandModule" where
  "log_event e s = s\<lparr>trace := trace s @ [e]\<rparr>"

text \<open>The assignment to \<^verbatim>\<open>error_\<close> of the connection stored under \<open>key\<close>.\<close>

definition set_error :: "string \<Rightarrow> int \<Rightarrow> WaylandModule \<Rightarrow> WaylandModule" where
  "set_error key e s =
     s\<lparr>conns := map (\<lambda>p. if fst p = key then (fst p, (snd p)\<lparr>conn_error := e\<rparr>) else p) (conns s)\<rparr>"

text \<open>The member \<^verbatim>\<open>error_\<close> of the connection stored under \<open>key\<close>, read back.\<close>

definition get_error :: "string \<Rightarrow> WaylandModule \<Rightarrow> int" where
  "get_error key s = (case map_of (conns s) key of Some conn \<Rightarrow> conn_error conn | None \<Rightarrow> 0)"

text \<open>
  \<open>onIOEvent wl stale_empty flags key s\<close>: the event loop calls \<^verbatim>\<open>onIOEvent(flags)\<close> on the
  connection stored in \<^verbatim>\<open>conns_\<close> under \<open>key\<close>. The event source belongs to the connection
  and dies with it, so there is no call for a key that is not in the map. \<open>wl\<close> is what
  the wayland client library answers, \<open>stale_empty\<close> what a read of the destroyed
  \<^verbatim>\<open>name_\<close> answers, should \<^verbatim>\<open>finish()\<close> come to it.
\<close>

definition onIOEvent ::
  "wl_answers \<Rightarrow> bool \<Rightarrow> IOEventFlags \<Rightarrow> string \<Rightarrow> WaylandModule \<Rightarrow> WaylandModule" where
  "onIOEvent wl stale_empty flags key s =
     (case map_of (conns s) key of
        None \<Rightarrow> s
      | Some this \<Rightarrow>
          if flags AND IOEventFlag_Err \<noteq> 0 \<or> flags AND IOEventFlag_Hup \<noteq> 0
          then finish stale_empty key this s
          else
            let s1 = log_event (WlPrepareRead (conn_display this)) s;
                s2 = (if wl_display_prepare_read wl = 0
                      then log_event (WlReadEvents (conn_display this)) s1 else s1);
                s3 = log_event (WlDispatch (conn_display this)) s2
            in if wl_display_dispatch wl < 0 then
                 let s4 = set_error key (wl_display_get_error wl)
                            (log_event (WlGetError (conn_display this)) s3);
                     s5 = (if get_error key s4 \<noteq> 0
                           then log_event (LogError (get_error key s4)) s4 else s4)
                 in if get_error key s5 \<noteq> 0
                    then finish stale_empty key this s5
                    else log_event (WlFlush (conn_display this)) s5
               else log_event (WlFlush (conn_display this)) s3)"

section \<open>The handler of InputMethodGroupChanged\<close>

text \<open>
  What the handler reads from outside the module: \<^verbatim>\<open>isKDE()\<close>, whether \<^verbatim>\<open>dbus()\<close> is
  non-null, the pair \<^verbatim>\<open>parseLayout\<close> returns for the default layout of the current group,
  the configuration \<^verbatim>\<open>readAsIni\<close> loads from \<^verbatim>\<open>kxkbrc\<close>, and the macro
  \<^verbatim>\<open>DEFAULT_XKB_RULES\<close>.
\<close>

record handler_env =
  isKDE :: bool
  dbusAddon :: bool
  layoutAndVariant :: "string \<times> string"
  kxkbrc :: RawConfig
  DEFAULT_XKB_RULES :: string

text \<open>
  \<^verbatim>\<open>setValueByPath\<close> overwrites the value at the path, or adds the path;
  \<^verbatim>\<open>valueByPath\<close> is \<^const>\<open>map_of\<close>.
\<close>

fun setValueByPath :: "string \<Rightarrow> string \<Rightarrow> RawConfig \<Rightarrow> RawConfig" where
  "setValueByPath path v [] = [(path, v)]"
| "setValueByPath path v (p # ps) =
     (if fst p = path then (path, v) # ps else p # setValueByPath path v ps)"

definition onInputMethodGroupChanged :: "handler_env \<Rightarrow> WaylandModule \<Rightarrow> WaylandModule" where
  "onInputMethodGroupChanged env s =
     (if \<not> isKDE env \<or> \<not> isWaylandSession s then s
      else case map_of (conns s) [] of
        None \<Rightarrow> s
      | Some connection \<Rightarrow>
          if \<not> dbusAddon env then s
          else
            let s1 = log_event (ReadAsIni ''kxkbrc'') s;
                config = kxkbrc env;
                config = setValueByPath ''Layout/LayoutList'' (fst (layoutAndVariant env)) config;
                config = setValueByPath ''Layout/VariantList'' (snd (layoutAndVariant env)) config;
                config = setValueByPath ''Layout/DisplayNames'' [] config;
                config = setValueByPath ''Layout/Use'' ''true'' config;
                model = map_of config ''Layout/Model'';
                options = map_of config ''Layout/Options'';
                s2 = log_event
                       (SetXkbParameters (conn_group connection) (DEFAULT_XKB_RULES env)
                          (case model of Some m \<Rightarrow> m | None \<Rightarrow> [])
                          (case options of Some opt \<Rightarrow> opt | None \<Rightarrow> [])) s1;
                s3 = log_event (SafeSaveAsIni ''kxkbrc'' config) s2
            in log_event (SendSignal ''/Layouts'' ''org.kde.keyboard'' ''reloadConfig'' []) s3)"

section \<open>Construction of the module and runs of operations\<close>

definition WaylandModule_ctor :: "bool \<Rightarrow> bool \<Rightarrow> display option \<Rightarrow> error + WaylandModule" where
  "WaylandModule_ctor isSessionType_wayland exit_option wl_display_connect =
     openDisplay wl_display_connect []
       \<lparr>conns = [], createdCallbacks = [], closedCallbacks = [],
        isWaylandSession = isSessionType_wayland,
        exitWhenMainDisplayDisconnected = exit_option, trace = []\<rparr>"

datatype operation =
    OpenDisplay "display option" string
  | RemoveDisplay string
  | IOEvent wl_answers bool IOEventFlags string
  | AddConnectionCreatedCallback callback
  | AddConnectionClosedCallback callback
  | InputMethodGroupChanged handler_env

fun step :: "operation \<Rightarrow> WaylandModule \<Rightarrow> error + WaylandModule" where
  "step (OpenDisplay wl_display_connect name) s = openDisplay wl_display_connect name s"
| "step (RemoveDisplay name) s = Inr (removeDisplay name s)"
| "step (IOEvent wl stale_empty flags key) s = Inr (onIOEvent wl stale_empty flags key s)"
| "step (AddConnectionCreatedCallback callback) s = Inr (addConnectionCreatedCallback callback s)"
| "step (AddConnectionClosedCallback callback) s = Inr (addConnectionClosedCallback callback s)"
| "step (InputMethodGroupChanged env) s = Inr (onInputMethodGroupChanged env s)"

text \<open>A run stops at the first operation that an exception leaves.\<close>

fun run :: "operation list \<Rightarrow> WaylandModule \<Rightarrow> error + WaylandModule" where
  "run [] s = Inr s"
| "run (operation # rest) s =
     (case step operation s of Inl e \<Rightarrow> Inl e | Inr s' \<Rightarrow> run rest s')"

definition boot :: "bool \<Rightarrow> bool \<Rightarrow> display option \<Rightarrow> operation list \<Rightarrow> error + WaylandModule" where
  "boot isSessionType_wayland exit_option wl_display_connect operations =
     (case WaylandModule_ctor isSessionType_wayland exit_option wl_display_connect of
        Inl e \<Rightarrow> Inl e
      | Inr s \<Rightarrow> run operations s)"

section \<open>Observations and example states\<close>

text \<open>The events an operation appended to the trace, between a state and its successor.\<close>

definition emitted :: "WaylandModule \<Rightarrow> WaylandModule \<Rightarrow> event list" where
  "emitted s s' = drop (length (trace s)) (trace s')"

text \<open>The calls into the wayland client library.\<close>

fun is_wl_call :: "event \<Rightarrow> bool" where
  "is_wl_call (WlPrepareRead d) = True"
| "is_wl_call (WlReadEvents d) = True"
| "is_wl_call (WlDispatch d) = True"
| "is_wl_call (WlGetError d) = True"
| "is_wl_call (WlFlush d) = True"
| "is_wl_call e = False"

text \<open>The calls every pump without error and hangup flags starts with.\<close>

definition pump_reads :: "wl_answers \<Rightarrow> display \<Rightarrow> event list" where
  "pump_reads wl d =
     [WlPrepareRead d] @ (if wl_display_prepare_read wl = 0 then [WlReadEvents d] else []) @
     [WlDispatch d]"

definition example_conn :: "string \<Rightarrow> display \<Rightarrow> WaylandConnection" where
  "example_conn name d =
     \<lparr>conn_name = name, conn_display = d, conn_group = ''wayland:'' @ name, conn_error = 0\<rparr>"

text \<open>Two open connections, one subscriber for created and two for closed.\<close>

definition example_module :: WaylandModule where
  "example_module =
     \<lparr>conns = [([], example_conn [] 1), (''wayland-1'', example_conn ''wayland-1'' 2)],
      createdCallbacks = [10], closedCallbacks = [20, 21],
      isWaylandSession = True, exitWhenMainDisplayDisconnected = True, trace = []\<rparr>"

text \<open>No connection at all: the state after the default display could not be opened.\<close>

definition headless_module :: WaylandModule where
  "headless_module =
     \<lparr>conns = [], createdCallbacks = [10], closedCallbacks = [20],
      isWaylandSession = True, exitWhenMainDisplayDisconnected = True, trace = []\<rparr>"

text \<open>A display name with a zero byte in it, and the module after opening it.\<close>

definition nul_name :: string where
  "nul_name = [CHR ''a'', CHR 0x00, CHR ''b'']"

definition nul_module :: WaylandModule where
  "nul_module =
     \<lparr>conns = [(nul_name, example_conn ''a'' 5)],
      createdCallbacks = [], closedCallbacks = [20],
      isWaylandSession = True, exitWhenMainDisplayDisconnected = True, trace = []\<rparr>"

text \<open>
  A display name that starts with a zero byte, and the module after opening it next to the
  default display: the second connection has the empty name as well.
\<close>

definition nul_first_name :: string where
  "nul_first_name = [CHR 0x00, CHR ''b'']"

definition nul_first_module :: WaylandModule where
  "nul_first_module =
     \<lparr>conns = [([], example_conn [] 1), (nul_first_name, example_conn [] 6)],
      createdCallbacks = [], closedCallbacks = [20],
      isWaylandSession = True, exitWhenMainDisplayDisconnected = True, trace = []\<rparr>"

definition example_answers :: wl_answers where
  "example_answers =
     \<lparr>wl_display_prepare_read = 0, wl_display_dispatch = -1, wl_display_get_error = 71\<rparr>"

text \<open>
  An operation whose display name, if it has one, is a C string: no zero byte in it.
  A module in which every connection is registered under its own name.
\<close>

fun c_string_names :: "operation \<Rightarrow> bool" where
  "c_string_names (OpenDisplay wl_display_connect name) = (CHR 0x00 \<notin> set name)"
| "c_string_names operation = True"

definition keyed_by_name :: "WaylandModule \<Rightarrow> bool" where
  "keyed_by_name s = list_all (\<lambda>p. conn_name (snd p) = fst p) (conns s)"

text \<open>What the handler finds on a KDE desktop with a bus and a \<^verbatim>\<open>kxkbrc\<close> of three keys.\<close>

definition example_env :: handler_env where
  "example_env =
     \<lparr>isKDE = True, dbusAddon = True, layoutAndVariant = (''us'', ''dvorak''),
      kxkbrc = [(''Layout/Model'', ''pc105''), (''Layout/Use'', ''false''), (''Other/Key'', ''v'')],
      DEFAULT_XKB_RULES = ''evdev''\<rparr>"

section \<open>Lemmas on the connection map and the trace\<close>

lemma erase_absent: "map_of ps key = None \<Longrightarrow> erase key ps = ps"
  by (induction ps) (auto split: if_splits)

lemma fst_erase_subset: "set (map fst (erase key ps)) \<subseteq> set (map fst ps)"
  by (induction ps) auto

lemma distinct_erase: "distinct (map fst ps) \<Longrightarrow> distinct (map fst (erase key ps))"
proof (induction ps)
  case Nil
  then show ?case by simp
next
  case (Cons p ps)
  have "fst p \<notin> set (map fst (erase key ps))" if "fst p \<notin> set (map fst ps)"
    using that fst_erase_subset [of key ps] by blast
  with Cons show ?case by simp
qed

lemma map_of_erase: "distinct (map fst ps) \<Longrightarrow> map_of (erase key ps) key = None"
proof (induction ps)
  case Nil
  then show ?case by simp
next
  case (Cons p ps)
  then show ?case
    by (cases p) (auto simp: map_of_eq_None_iff image_iff)
qed

lemma removeDisplay_absent:
  "map_of (conns s) name = None \<Longrightarrow>
   removeDisplay name s =
     (if name = [] \<and> exitWhenMainDisplayDisconnected s \<and> isWaylandSession s
      then s\<lparr>trace := trace s @ [InstanceExit]\<rparr> else s)"
  by (simp add: removeDisplay_def Let_def)

lemma removeDisplay_present:
  "map_of (conns s) name = Some conn \<Longrightarrow>
   removeDisplay name s =
     s\<lparr>conns := erase name (conns s),
       trace := trace s @
         map (\<lambda>callback. ClosedCallback callback (conn_name conn) (conn_display conn))
           (closedCallbacks s) @
         (if name = [] \<and> exitWhenMainDisplayDisconnected s \<and> isWaylandSession s
          then [InstanceExit] else [])\<rparr>"
  by (simp add: removeDisplay_def onConnectionClosed_def Let_def)

lemma is_wl_call_closed [simp]:
  "filter is_wl_call (map (\<lambda>callback. ClosedCallback callback n d) cbs) = []"
  by (induction cbs) simp_all

lemma map_of_erase_other: "k \<noteq> key \<Longrightarrow> map_of (erase key ps) k = map_of ps k"
  by (induction ps) auto

lemma removeDisplay_ref_absent:
  "map_of (conns s) name = None \<Longrightarrow> removeDisplay_ref owner stale_empty name s = removeDisplay name s"
  by (simp add: removeDisplay_ref_def removeDisplay_def Let_def)

lemma removeDisplay_ref_other:
  "owner \<noteq> name \<Longrightarrow> removeDisplay_ref owner stale_empty name s = removeDisplay name s"
  by (simp add: removeDisplay_ref_def removeDisplay_def Let_def)

lemma removeDisplay_ref_present:
  "map_of (conns s) name = Some conn \<Longrightarrow>
   removeDisplay_ref owner stale_empty name s =
     s\<lparr>conns := erase name (conns s),
       trace := trace s @
         map (\<lambda>callback. ClosedCallback callback (conn_name conn) (conn_display conn))
           (closedCallbacks s) @
         (if (if owner = name then stale_empty else name = []) \<and>
             exitWhenMainDisplayDisconnected s \<and> isWaylandSession s
          then [InstanceExit] else [])\<rparr>"
  by (simp add: removeDisplay_ref_def onConnectionClosed_def Let_def)

lemma conns_removeDisplay_ref:
  "conns (removeDisplay_ref owner stale_empty name s) = conns (removeDisplay name s)"
  by (cases "map_of (conns s) name")
    (simp_all add: removeDisplay_ref_absent removeDisplay_ref_present removeDisplay_present)

lemma map_of_set_error:
  "map_of ps key = Some this \<Longrightarrow>
   map_of (map (\<lambda>p. if fst p = key then (fst p, (snd p)\<lparr>conn_error := e\<rparr>) else p) ps) key =
     Some (this\<lparr>conn_error := e\<rparr>)"
  by (induction ps) (auto split: if_splits)

lemma map_of_set_error_other:
  "k \<noteq> key \<Longrightarrow>
   map_of (map (\<lambda>p. if fst p = key then (fst p, (snd p)\<lparr>conn_error := e\<rparr>) else p) ps) k =
     map_of ps k"
  by (induction ps) auto

lemma fst_set_error_list:
  "map (fst \<circ> (\<lambda>p. if fst p = key then (fst p, (snd p)\<lparr>conn_error := e\<rparr>) else p)) ps = map fst ps"
  by (induction ps) auto

lemma fst_set_error [simp]: "map fst (conns (set_error key e s)) = map fst (conns s)"
  by (simp add: set_error_def fst_set_error_list)

lemma trace_set_error [simp]: "trace (set_error key e s) = trace s"
  by (simp add: set_error_def)

lemma conns_set_error_trace [simp]:
  "conns (set_error key e (s\<lparr>trace := t\<rparr>)) = conns (set_error key e s)"
  by (simp add: set_error_def)

lemma set_error_fields [simp]:
  "createdCallbacks (set_error key e s) = createdCallbacks s"
  "closedCallbacks (set_error key e s) = closedCallbacks s"
  "isWaylandSession (set_error key e s) = isWaylandSession s"
  "exitWhenMainDisplayDisconnected (set_error key e s) = exitWhenMainDisplayDisconnected s"
  by (simp_all add: set_error_def)

lemma conns_log_event [simp]: "conns (log_event ev s) = conns s"
  by (simp add: log_event_def)

lemma get_error_log_event [simp]: "get_error key (log_event ev s) = get_error key s"
  by (simp add: get_error_def)

lemma map_of_conns_set_error:
  "map_of (conns s) key = Some this \<Longrightarrow>
   map_of (conns (set_error key e s)) key = Some (this\<lparr>conn_error := e\<rparr>)"
  unfolding set_error_def by (simp add: map_of_set_error)

lemma map_of_conns_set_error_other:
  "k \<noteq> key \<Longrightarrow> map_of (conns (set_error key e s)) k = map_of (conns s) k"
  unfolding set_error_def by (simp add: map_of_set_error_other)

lemma get_error_set_error:
  "map_of (conns s) key = Some this \<Longrightarrow> get_error key (set_error key e s) = e"
  by (simp add: get_error_def map_of_conns_set_error)

section \<open>removeDisplay\<close>

text \<open>
  C1, as the code has it. For a name that is not in the connection map, \<open>removeDisplay\<close>
  leaves the map as it is and calls no closed callback. The test for the exit of the
  process stands after the lookup, outside of its branch: when the name is empty and both
  \<open>exitWhenMainDisplayDisconnected\<close> and \<open>isWaylandSession\<close> are set, the exit is
  requested although nothing was removed; in every other case the whole state is unchanged.
\<close>

theorem removeDisplay_absent_name:
  "map_of (conns s) name = None \<Longrightarrow>
   conns (removeDisplay name s) = conns s \<and>
   emitted s (removeDisplay name s) =
     (if name = [] \<and> exitWhenMainDisplayDisconnected s \<and> isWaylandSession s
      then [InstanceExit] else []) \<and>
   removeDisplay name s =
     (if name = [] \<and> exitWhenMainDisplayDisconnected s \<and> isWaylandSession s
      then s\<lparr>trace := trace s @ [InstanceExit]\<rparr> else s)"
  by (simp add: removeDisplay_absent emitted_def)

theorem removeDisplay_absent_name_witness:
  "map_of (conns example_module) ''wayland-9'' = None \<and>
   removeDisplay ''wayland-9'' example_module = example_module"
  using removeDisplay_absent_name [of example_module "''wayland-9''"]
  by (simp add: example_module_def)

text \<open>
  C1, as the claim states it, fails: with no connection open and both flags set,
  \<open>removeDisplay\<close> of the empty name requests the exit of the process.
\<close>

theorem removeDisplay_absent_exit_counterexample:
  "map_of (conns headless_module) [] = None \<and>
   exitWhenMainDisplayDisconnected headless_module \<and> isWaylandSession headless_module \<and>
   emitted headless_module (removeDisplay [] headless_module) = [InstanceExit]"
  by (simp add: headless_module_def removeDisplay_def emitted_def Let_def)



section \<open>openDisplay when the connection cannot be constructed\<close>

lemma ctor_fails_iff:
  "(\<exists>e. WaylandConnection_ctor wl_display_connect name = Inl e) \<longleftrightarrow> wl_display_connect = None"
  by (auto simp: WaylandConnection_ctor_def Let_def split: option.splits)

text \<open>
  C3. When the constructor of the connection throws, \<open>openDisplay\<close> returns normally and
  the state is the one before the call: no entry is added, none is changed, and no
  created callback is called.
\<close>

theorem openDisplay_construction_fails:
  "WaylandConnection_ctor wl_display_connect
     (if name \<noteq> [] then Some (c_str name) else None) = Inl e \<Longrightarrow>
   openDisplay wl_display_connect name s = Inr s"
  by (cases e) (simp add: openDisplay_def emplace_def)

theorem openDisplay_construction_fails_witness:
  "WaylandConnection_ctor None (if ''wayland-1'' \<noteq> [] then Some (c_str ''wayland-1'') else None) =
     Inl (RuntimeError ''Failed to open wayland connection'') \<and>
   openDisplay None ''wayland-1'' example_module = Inr example_module"
  using openDisplay_construction_fails [of None "''wayland-1''"
      "RuntimeError ''Failed to open wayland connection''" example_module]
  by (simp add: WaylandConnection_ctor_def)

section \<open>addConnectionCreatedCallback\<close>

text \<open>
  C4. \<open>addConnectionCreatedCallback\<close> appends the callback to the created table, leaves
  the connection map alone, and calls the new callback once for each entry of the map, in
  the order of the map, with the name, the display and the focus group of the entry's
  connection: as many calls as entries, none when the map is empty.
\<close>

theorem addConnectionCreatedCallback_replays:
  "createdCallbacks (addConnectionCreatedCallback callback s) = createdCallbacks s @ [callback] \<and>
   conns (addConnectionCreatedCallback callback s) = conns s \<and>
   emitted s (addConnectionCreatedCallback callback s) =
     map (\<lambda>p. CreatedCallback callback (conn_name (snd p)) (conn_display (snd p))
                 (conn_group (snd p))) (conns s) \<and>
   length (emitted s (addConnectionCreatedCallback callback s)) = length (conns s) \<and>
   (emitted s (addConnectionCreatedCallback callback s) = [] \<longleftrightarrow> conns s = [])"
  by (simp add: addConnectionCreatedCallback_def Let_def emitted_def)

theorem addConnectionCreatedCallback_replays_witness:
  "emitted example_module (addConnectionCreatedCallback 11 example_module) =
     [CreatedCallback 11 [] 1 ''wayland:'', CreatedCallback 11 ''wayland-1'' 2 ''wayland:wayland-1''] \<and>
   emitted headless_module (addConnectionCreatedCallback 11 headless_module) = []"
  using addConnectionCreatedCallback_replays [of 11 example_module]
    addConnectionCreatedCallback_replays [of 11 headless_module]
  by (simp add: example_module_def headless_module_def example_conn_def)

section \<open>The pump on error and hangup\<close>

text \<open>
  Where the connection is registered under its own name, a pump whose flags include
  \<^verbatim>\<open>Err\<close> or \<^verbatim>\<open>Hup\<close> closes it: every subscriber of the closed table is called once
  with the name and the display of the connection, no call into the wayland client
  library is made, the entry is gone and the other entries are as before. The entry
  erased is the one that owns the name \<^verbatim>\<open>removeDisplay\<close> reads afterwards, so whether the
  exit of the process is requested hangs on what the destroyed string answers.
\<close>

lemma onIOEvent_hangup_closes:
  assumes "map_of (conns s) key = Some this"
    and "conn_name this = key"
    and "distinct (map fst (conns s))"
    and "flags AND IOEventFlag_Err \<noteq> 0 \<or> flags AND IOEventFlag_Hup \<noteq> 0"
  shows "emitted s (onIOEvent wl stale_empty flags key s) =
           map (\<lambda>callback. ClosedCallback callback key (conn_display this)) (closedCallbacks s) @
           (if stale_empty \<and> exitWhenMainDisplayDisconnected s \<and> isWaylandSession s
            then [InstanceExit] else []) \<and>
         map_of (conns (onIOEvent wl stale_empty flags key s)) key = None \<and>
         (\<forall>k. k \<noteq> key \<longrightarrow> map_of (conns (onIOEvent wl stale_empty flags key s)) k = map_of (conns s) k)"
proof -
  have pump: "onIOEvent wl stale_empty flags key s = removeDisplay_ref key stale_empty key s"
    using assms(1,2,4) by (auto simp: onIOEvent_def finish_def)
  note removed = removeDisplay_ref_present [OF assms(1), of key stale_empty]
  show ?thesis
    using assms(2,3) by (simp add: pump removed emitted_def map_of_erase map_of_erase_other)
qed

text \<open>
  C5. The claim: for every registered connection, a pump whose flags include error or
  hangup results in exactly one closed notification for that connection, followed by its
  removal from the registry. The code misses this for a connection that was opened under
  a name with a zero byte in it: \<open>openDisplay\<close> keys the entry by the whole
  \<^verbatim>\<open>std::string\<close>, the constructor names the connection by the C string, and \<^verbatim>\<open>finish()\<close>
  removes by the name of the connection. Here the module is constructed without a
  display, a closed subscriber is added, and the three bytes \<^verbatim>\<open>a\<close>, zero, \<^verbatim>\<open>b\<close> are opened.
  The connection is registered, with the name \<^verbatim>\<open>a\<close>. Its pump with the hangup flag looks
  up \<^verbatim>\<open>a\<close>, finds no entry, and returns with the state as it was: no closed callback is
  called and the connection is still registered.
\<close>

theorem onIOEvent_hangup_nul_name:
  "boot True True None [AddConnectionClosedCallback 20, OpenDisplay (Some 5) nul_name] =
     Inr nul_module \<and>
   map_of (conns nul_module) nul_name = Some (example_conn ''a'' 5) \<and>
   closedCallbacks nul_module = [20] \<and>
   IOEventFlag_Hup AND IOEventFlag_Hup \<noteq> 0 \<and>
   onIOEvent example_answers True IOEventFlag_Hup nul_name nul_module = nul_module \<and>
   onIOEvent example_answers False IOEventFlag_Hup nul_name nul_module = nul_module"
  by (simp add: boot_def WaylandModule_ctor_def openDisplay_def emplace_def
      WaylandConnection_ctor_def addConnectionClosedCallback_def onConnectionCreated_def
      nul_module_def nul_name_def example_conn_def c_str_def onIOEvent_def finish_def
      removeDisplay_ref_def IOEventFlag_Hup_def Let_def)

theorem onIOEvent_hangup_nul_name_witness:
  "emitted nul_module (onIOEvent example_answers True IOEventFlag_Hup nul_name nul_module) = [] \<and>
   map_of (conns (onIOEvent example_answers True IOEventFlag_Hup nul_name nul_module)) nul_name =
     Some (example_conn ''a'' 5)"
  using onIOEvent_hangup_nul_name by (simp add: emitted_def)

text \<open>
  The same slip with a name that starts with the zero byte: the connection is named by
  the empty string, and its pump with the hangup flag closes the default connection in
  its place and requests the exit of the process.
\<close>

lemma onIOEvent_hangup_nul_first_name:
  "boot True True (Some 1) [AddConnectionClosedCallback 20, OpenDisplay (Some 6) nul_first_name] =
     Inr nul_first_module \<and>
   onIOEvent example_answers stale_empty IOEventFlag_Hup nul_first_name nul_first_module =
     nul_first_module
       \<lparr>conns := [(nul_first_name, example_conn [] 6)],
        trace := [ClosedCallback 20 [] 1, InstanceExit]\<rparr>"
  by (simp add: boot_def WaylandModule_ctor_def openDisplay_def emplace_def
      WaylandConnection_ctor_def addConnectionClosedCallback_def onConnectionCreated_def
      nul_first_module_def nul_first_name_def example_conn_def c_str_def onIOEvent_def finish_def
      removeDisplay_ref_def onConnectionClosed_def IOEventFlag_Hup_def Let_def)

section \<open>The pump without error and hangup flags\<close>

lemma filter_pump_reads [simp]: "filter is_wl_call (pump_reads wl d) = pump_reads wl d"
  by (simp add: pump_reads_def)

text \<open>
  The pump, case by case, for a connection under \<open>key\<close> and flags without \<^verbatim>\<open>Err\<close> and
  \<^verbatim>\<open>Hup\<close>: what it does before it comes to \<^verbatim>\<open>finish()\<close> or to the flush.
\<close>

lemma onIOEvent_pump:
  assumes "map_of (conns s) key = Some this"
    and "flags AND IOEventFlag_Err = 0" and "flags AND IOEventFlag_Hup = 0"
  shows "onIOEvent wl stale_empty flags key s =
     (if wl_display_dispatch wl < 0 then
        (if wl_display_get_error wl \<noteq> 0
         then finish stale_empty key this
                (set_error key (wl_display_get_error wl)
                   (s\<lparr>trace := trace s @ pump_reads wl (conn_display this) @
                                [WlGetError (conn_display this)]\<rparr>)
                 \<lparr>trace := trace s @ pump_reads wl (conn_display this) @
                             [WlGetError (conn_display this), LogError (wl_display_get_error wl)]\<rparr>)
         else set_error key (wl_display_get_error wl)
                (s\<lparr>trace := trace s @ pump_reads wl (conn_display this) @
                             [WlGetError (conn_display this), WlFlush (conn_display this)]\<rparr>))
      else s\<lparr>trace := trace s @ pump_reads wl (conn_display this) @ [WlFlush (conn_display this)]\<rparr>)"
proof -
  let ?d = "conn_display this"
  let ?s3 = "s\<lparr>trace := trace s @ pump_reads wl ?d\<rparr>"
  have captured: "get_error key (set_error key e s') = e" if "conns s' = conns s" for e s'
    using that assms(1) by (simp add: get_error_set_error)
  show ?thesis
    using assms
    by (simp add: onIOEvent_def Let_def captured)
      (simp add: log_event_def set_error_def pump_reads_def)
qed

text \<open>
  Where the connection is registered under its own name, the pump does what C6 says.
  When dispatch answers a negative number and the last error of the display is not
  zero, the error is stored and logged, every subscriber of the closed table is called,
  the entry is gone, and there is no flush. When the error is zero, the connection stays,
  holds the error 0, and the pump ends with the flush. When dispatch answers a number
  that is not negative, no error is fetched and the pump ends with the flush.
\<close>

lemma onIOEvent_dispatch_closes:
  assumes "map_of (conns s) key = Some this"
    and "conn_name this = key"
    and "distinct (map fst (conns s))"
    and "flags AND IOEventFlag_Err = 0" and "flags AND IOEventFlag_Hup = 0"
  shows
    "(wl_display_dispatch wl < 0 \<and> wl_display_get_error wl \<noteq> 0 \<longrightarrow>
        emitted s (onIOEvent wl stale_empty flags key s) =
          pump_reads wl (conn_display this) @
          [WlGetError (conn_display this), LogError (wl_display_get_error wl)] @
          map (\<lambda>callback. ClosedCallback callback key (conn_display this)) (closedCallbacks s) @
          (if stale_empty \<and> exitWhenMainDisplayDisconnected s \<and> isWaylandSession s
           then [InstanceExit] else []) \<and>
        map_of (conns (onIOEvent wl stale_empty flags key s)) key = None \<and>
        (\<forall>k. k \<noteq> key \<longrightarrow>
           map_of (conns (onIOEvent wl stale_empty flags key s)) k = map_of (conns s) k)) \<and>
     (wl_display_dispatch wl < 0 \<and> wl_display_get_error wl = 0 \<longrightarrow>
        emitted s (onIOEvent wl stale_empty flags key s) =
          pump_reads wl (conn_display this) @
          [WlGetError (conn_display this), WlFlush (conn_display this)] \<and>
        map_of (conns (onIOEvent wl stale_empty flags key s)) key = Some (this\<lparr>conn_error := 0\<rparr>) \<and>
        (\<forall>k. k \<noteq> key \<longrightarrow>
           map_of (conns (onIOEvent wl stale_empty flags key s)) k = map_of (conns s) k)) \<and>
     (0 \<le> wl_display_dispatch wl \<longrightarrow>
        onIOEvent wl stale_empty flags key s =
          s\<lparr>trace := trace s @ pump_reads wl (conn_display this) @ [WlFlush (conn_display this)]\<rparr>)"
proof -
  let ?d = "conn_display this"
  let ?e = "wl_display_get_error wl"
  let ?s5 = "set_error key ?e (s\<lparr>trace := trace s @ pump_reads wl ?d @ [WlGetError ?d]\<rparr>)
      \<lparr>trace := trace s @ pump_reads wl ?d @ [WlGetError ?d, LogError ?e]\<rparr>"
  note pump = onIOEvent_pump [OF assms(1,4,5), of wl stale_empty]
  have stored: "map_of (conns ?s5) key = Some (this\<lparr>conn_error := ?e\<rparr>)"
    using assms(1) by (simp add: map_of_conns_set_error)
  have fin: "finish stale_empty key this ?s5 = removeDisplay_ref key stale_empty key ?s5"
    using assms(2) by (simp add: finish_def)
  note removed = removeDisplay_ref_present [OF stored, of key stale_empty]
  have closing_trace:
    "trace (finish stale_empty key this ?s5) =
       trace s @ pump_reads wl ?d @ [WlGetError ?d, LogError ?e] @
       map (\<lambda>callback. ClosedCallback callback key ?d) (closedCallbacks s) @
       (if stale_empty \<and> exitWhenMainDisplayDisconnected s \<and> isWaylandSession s
        then [InstanceExit] else [])"
    using assms(2) by (simp add: fin removed)
  have closing_conns: "conns (finish stale_empty key this ?s5) = erase key (conns ?s5)"
    by (simp add: fin removed)
  have closed: "map_of (erase key (conns (set_error key ?e s))) key = None"
    using assms(3) by (simp add: map_of_erase)
  have kept: "map_of (erase key (conns (set_error key ?e s))) k = map_of (conns s) k"
    if "k \<noteq> key" for k
    using that by (simp add: map_of_erase_other map_of_conns_set_error_other)
  have zero: "map_of (conns (set_error key 0 s')) key = Some (this\<lparr>conn_error := 0\<rparr>)"
    and zero_others: "k \<noteq> key \<longrightarrow> map_of (conns (set_error key 0 s')) k = map_of (conns s) k"
    if "conns s' = conns s" for s' k
    using that assms(1)
    by (simp_all add: map_of_conns_set_error map_of_conns_set_error_other)
  show ?thesis
    by (simp add: pump closing_trace closing_conns closed kept zero zero_others emitted_def)
qed

text \<open>
  C6. The claim: in a pump without error and hangup flags, when dispatch answers a
  negative number the connection captures the last error of the display, and it
  transitions to Closed exactly when that error is not zero. The code captures the error
  and calls \<^verbatim>\<open>finish()\<close>, and \<^verbatim>\<open>finish()\<close> misses the connection that was opened under a
  name with a zero byte in it, by the slip of C5. Here the module is constructed without
  a display, a closed subscriber is added, and the three bytes \<^verbatim>\<open>a\<close>, zero, \<^verbatim>\<open>b\<close> are
  opened; the pump of that connection runs with the flag \<^verbatim>\<open>In\<close>, dispatch answers -1 and
  the last error is 71. The error 71 is stored in the connection and logged, there is no
  flush, and the connection is not closed: no closed callback is called and it is still
  registered, with the error 71.
\<close>

theorem onIOEvent_dispatch_error_nul_name:
  "boot True True None [AddConnectionClosedCallback 20, OpenDisplay (Some 5) nul_name] =
     Inr nul_module \<and>
   map_of (conns nul_module) nul_name = Some (example_conn ''a'' 5) \<and>
   closedCallbacks nul_module = [20] \<and>
   IOEventFlag_In AND IOEventFlag_Err = 0 \<and> IOEventFlag_In AND IOEventFlag_Hup = 0 \<and>
   wl_display_dispatch example_answers = -1 \<and> wl_display_get_error example_answers = 71 \<and>
   onIOEvent example_answers True IOEventFlag_In nul_name nul_module =
     nul_module
       \<lparr>conns := [(nul_name, (example_conn ''a'' 5)\<lparr>conn_error := 71\<rparr>)],
        trace := [WlPrepareRead 5, WlReadEvents 5, WlDispatch 5, WlGetError 5, LogError 71]\<rparr> \<and>
   onIOEvent example_answers False IOEventFlag_In nul_name nul_module =
     nul_module
       \<lparr>conns := [(nul_name, (example_conn ''a'' 5)\<lparr>conn_error := 71\<rparr>)],
        trace := [WlPrepareRead 5, WlReadEvents 5, WlDispatch 5, WlGetError 5, LogError 71]\<rparr>"
  by (simp add: boot_def WaylandModule_ctor_def openDisplay_def emplace_def
      WaylandConnection_ctor_def addConnectionClosedCallback_def onConnectionCreated_def c_str_def
      nul_module_def nul_name_def example_conn_def example_answers_def
      onIOEvent_def finish_def removeDisplay_ref_def set_error_def get_error_def log_event_def
      IOEventFlag_In_def IOEventFlag_Err_def IOEventFlag_Hup_def Let_def)

theorem onIOEvent_dispatch_error_nul_name_witness:
  "map_of (conns (onIOEvent example_answers True IOEventFlag_In nul_name nul_module)) nul_name =
     Some ((example_conn ''a'' 5)\<lparr>conn_error := 71\<rparr>) \<and>
   emitted nul_module (onIOEvent example_answers True IOEventFlag_In nul_name nul_module) =
     [WlPrepareRead 5, WlReadEvents 5, WlDispatch 5, WlGetError 5, LogError 71]"
  using onIOEvent_dispatch_error_nul_name by (simp add: emitted_def nul_module_def)

section \<open>No name is registered twice\<close>

lemma emplace_distinct:
  "distinct (map fst ps) \<Longrightarrow> emplace key constructed ps = Inr (ps', element) \<Longrightarrow>
   distinct (map fst ps')"
  by (auto simp: emplace_def map_of_eq_None_iff split: sum.splits option.splits)

lemma openDisplay_returns: "\<exists>s'. openDisplay wl_display_connect name s = Inr s'"
  by (auto simp: openDisplay_def Let_def split: sum.splits error.splits prod.splits)

lemma openDisplay_distinct:
  "distinct (map fst (conns s)) \<Longrightarrow> openDisplay wl_display_connect name s = Inr s' \<Longrightarrow>
   distinct (map fst (conns s'))"
  by (auto simp: openDisplay_def Let_def onConnectionCreated_def
      split: sum.splits error.splits prod.splits dest: emplace_distinct)

lemma removeDisplay_distinct:
  "distinct (map fst (conns s)) \<Longrightarrow> distinct (map fst (conns (removeDisplay name s)))"
  by (cases "map_of (conns s) name")
    (simp_all add: removeDisplay_absent removeDisplay_present distinct_erase)

lemma finish_distinct:
  "distinct (map fst (conns s)) \<Longrightarrow> distinct (map fst (conns (finish stale_empty key this s)))"
  by (simp add: finish_def conns_removeDisplay_ref removeDisplay_distinct)

lemma onIOEvent_distinct:
  assumes "distinct (map fst (conns s))"
  shows "distinct (map fst (conns (onIOEvent wl stale_empty flags key s)))"
proof (cases "map_of (conns s) key")
  case None
  with assms show ?thesis by (simp add: onIOEvent_def)
next
  case (Some this)
  have fin: "distinct (map fst (conns (finish stale_empty key this s')))"
    if "map fst (conns s') = map fst (conns s)" for s'
    using that assms finish_distinct [of s' stale_empty key this] by simp
  from Some assms show ?thesis
    by (simp add: onIOEvent_def Let_def fin)
qed

lemma step_distinct:
  assumes "distinct (map fst (conns s))" and "step operation s = Inr s'"
  shows "distinct (map fst (conns s'))"
proof (cases operation)
  case (OpenDisplay w name)
  with assms show ?thesis by (simp add: openDisplay_distinct)
next
  case (RemoveDisplay name)
  with assms show ?thesis by (auto simp: removeDisplay_distinct)
next
  case (IOEvent wl stale_empty flags key)
  with assms show ?thesis by (auto simp: onIOEvent_distinct)
next
  case (AddConnectionCreatedCallback callback)
  with assms show ?thesis by (auto simp: addConnectionCreatedCallback_def Let_def)
next
  case (AddConnectionClosedCallback callback)
  with assms show ?thesis by (auto simp: addConnectionClosedCallback_def)
next
  case (InputMethodGroupChanged env)
  with assms show ?thesis
    by (auto simp: onInputMethodGroupChanged_def Let_def log_event_def split: option.splits)
qed

lemma step_returns: "\<exists>s'. step operation s = Inr s'"
  by (cases operation) (simp_all add: openDisplay_returns)

lemma run_distinct:
  "distinct (map fst (conns s)) \<Longrightarrow>
   \<exists>s'. run operations s = Inr s' \<and> distinct (map fst (conns s'))"
proof (induction operations arbitrary: s)
  case Nil
  then show ?case by simp
next
  case (Cons operation rest)
  obtain s1 where s1: "step operation s = Inr s1"
    using step_returns by blast
  with Cons.prems have "distinct (map fst (conns s1))"
    by (simp add: step_distinct)
  from Cons.IH [OF this] s1 show ?case by simp
qed

text \<open>
  C7. After the construction of the module and any sequence of its operations
  (\<open>openDisplay\<close> and \<open>removeDisplay\<close>, and the pump, the two subscriptions and the layout
  handler as well), every operation has returned normally and no name occurs twice among
  the keys of the connection map.
\<close>

theorem registry_names_unique:
  "\<exists>s. boot isSessionType_wayland exit_option wl_display_connect operations = Inr s \<and>
       distinct (map fst (conns s))"
proof -
  let ?s0 = "\<lparr>conns = [], createdCallbacks = [], closedCallbacks = [],
        isWaylandSession = isSessionType_wayland,
        exitWhenMainDisplayDisconnected = exit_option, trace = []\<rparr>"
  obtain s1 where s1: "openDisplay wl_display_connect [] ?s0 = Inr s1"
    using openDisplay_returns by blast
  have "distinct (map fst (conns ?s0))" by simp
  then have "distinct (map fst (conns s1))"
    using s1 by (rule openDisplay_distinct)
  from run_distinct [OF this, of operations] s1 show ?thesis
    by (simp add: boot_def WaylandModule_ctor_def)
qed

theorem registry_names_unique_witness:
  "\<exists>s. boot True True (Some 1)
          [OpenDisplay (Some 2) ''wayland-1'', OpenDisplay (Some 3) ''wayland-1'',
           RemoveDisplay [], OpenDisplay (Some 4) []] = Inr s \<and>
       distinct (map fst (conns s))"
  by (rule registry_names_unique)

section \<open>Connections are registered under their names\<close>

text \<open>
  \<open>openDisplay\<close> registers a connection under its own name when the name is a C string,
  and no operation changes a key or a name. So, as long as every name that is opened is
  a C string, every connection in the map is found under its own name.
\<close>

lemma c_str_c_string: "CHR 0x00 \<notin> set name \<Longrightarrow> c_str name = name"
  by (auto simp: c_str_def)

lemma set_erase_subset: "set (erase key ps) \<subseteq> set ps"
  by (induction ps) auto

lemma keyed_by_nameD:
  "keyed_by_name s \<Longrightarrow> map_of (conns s) key = Some this \<Longrightarrow> conn_name this = key"
  by (force simp: keyed_by_name_def list_all_iff dest: map_of_SomeD)

lemma openDisplay_keyed_by_name:
  assumes "keyed_by_name s" and "CHR 0x00 \<notin> set name"
    and "openDisplay wl_display_connect name s = Inr s'"
  shows "keyed_by_name s'"
  using assms
  by (cases wl_display_connect; cases "map_of (conns s) name")
    (auto simp: openDisplay_def emplace_def WaylandConnection_ctor_def Let_def
      onConnectionCreated_def keyed_by_name_def c_str_c_string)

lemma removeDisplay_keyed_by_name:
  "keyed_by_name s \<Longrightarrow> keyed_by_name (removeDisplay name s)"
  using set_erase_subset [of name "conns s"]
  by (cases "map_of (conns s) name")
    (auto simp: removeDisplay_absent removeDisplay_present keyed_by_name_def list_all_iff)

lemma set_error_keyed_by_name: "keyed_by_name s \<Longrightarrow> keyed_by_name (set_error key e s)"
  by (auto simp: keyed_by_name_def set_error_def list_all_iff)

lemma log_event_keyed_by_name [simp]: "keyed_by_name (log_event ev s) = keyed_by_name s"
  by (simp add: keyed_by_name_def)

lemma finish_keyed_by_name:
  "keyed_by_name s \<Longrightarrow> keyed_by_name (finish stale_empty key this s)"
  using removeDisplay_keyed_by_name [of s "conn_name this"]
  by (simp add: finish_def keyed_by_name_def conns_removeDisplay_ref)

lemma onIOEvent_keyed_by_name:
  assumes "keyed_by_name s"
  shows "keyed_by_name (onIOEvent wl stale_empty flags key s)"
proof (cases "map_of (conns s) key")
  case None
  with assms show ?thesis by (simp add: onIOEvent_def)
next
  case (Some this)
  with assms show ?thesis
    by (simp add: onIOEvent_def Let_def finish_keyed_by_name set_error_keyed_by_name)
qed

lemma step_keyed_by_name:
  assumes "keyed_by_name s" and "c_string_names operation" and "step operation s = Inr s'"
  shows "keyed_by_name s'"
proof (cases operation)
  case (OpenDisplay w name)
  with assms show ?thesis by (auto intro: openDisplay_keyed_by_name)
next
  case (RemoveDisplay name)
  with assms show ?thesis by (auto intro: removeDisplay_keyed_by_name)
next
  case (IOEvent wl stale_empty flags key)
  with assms show ?thesis by (auto intro: onIOEvent_keyed_by_name)
next
  case (AddConnectionCreatedCallback callback)
  with assms show ?thesis
    by (auto simp: addConnectionCreatedCallback_def Let_def keyed_by_name_def)
next
  case (AddConnectionClosedCallback callback)
  with assms show ?thesis
    by (auto simp: addConnectionClosedCallback_def keyed_by_name_def)
next
  case (InputMethodGroupChanged env)
  with assms show ?thesis
    by (auto simp: onInputMethodGroupChanged_def Let_def keyed_by_name_def split: option.splits)
qed

lemma run_keyed_by_name:
  "keyed_by_name s \<Longrightarrow> list_all c_string_names operations \<Longrightarrow> run operations s = Inr s' \<Longrightarrow>
   keyed_by_name s'"
proof (induction operations arbitrary: s)
  case Nil
  then show ?case by simp
next
  case (Cons operation rest)
  then show ?case
    by (auto split: sum.splits dest: step_keyed_by_name)
qed

lemma boot_keyed_by_name:
  assumes "boot isSessionType_wayland exit_option wl_display_connect operations = Inr s"
    and "list_all c_string_names operations"
  shows "keyed_by_name s"
proof -
  let ?s0 = "\<lparr>conns = [], createdCallbacks = [], closedCallbacks = [],
        isWaylandSession = isSessionType_wayland,
        exitWhenMainDisplayDisconnected = exit_option, trace = []\<rparr>"
  obtain s1 where s1: "openDisplay wl_display_connect [] ?s0 = Inr s1"
    using openDisplay_returns by blast
  have "keyed_by_name s1"
    by (rule openDisplay_keyed_by_name [OF _ _ s1]) (simp_all add: keyed_by_name_def)
  moreover have "run operations s1 = Inr s"
    using assms(1) s1 by (simp add: boot_def WaylandModule_ctor_def)
  ultimately show ?thesis
    using assms(2) by (simp add: run_keyed_by_name)
qed

section \<open>The layout handler\<close>

text \<open>
  C8. When one of the four guards of the handler fails (the desktop is not KDE, the
  session is not a wayland session, there is no connection named by the empty string, or
  there is no dbus addon), the handler returns the state it was given: it emits no event,
  so it neither reads nor writes \<^verbatim>\<open>kxkbrc\<close>, sets no xkb parameters and sends no signal.
\<close>

theorem layout_sync_guards:
  "\<not> isKDE env \<or> \<not> isWaylandSession s \<or> map_of (conns s) [] = None \<or> \<not> dbusAddon env \<Longrightarrow>
   onInputMethodGroupChanged env s = s \<and> emitted s (onInputMethodGroupChanged env s) = []"
  by (auto simp: onInputMethodGroupChanged_def emitted_def split: option.splits)

theorem layout_sync_guards_witness:
  "\<not> isKDE (example_env\<lparr>isKDE := False\<rparr>) \<and>
   onInputMethodGroupChanged (example_env\<lparr>isKDE := False\<rparr>) example_module = example_module \<and>
   \<not> isWaylandSession (example_module\<lparr>isWaylandSession := False\<rparr>) \<and>
   onInputMethodGroupChanged example_env (example_module\<lparr>isWaylandSession := False\<rparr>) =
     example_module\<lparr>isWaylandSession := False\<rparr> \<and>
   map_of (conns headless_module) [] = None \<and>
   onInputMethodGroupChanged example_env headless_module = headless_module \<and>
   \<not> dbusAddon (example_env\<lparr>dbusAddon := False\<rparr>) \<and>
   onInputMethodGroupChanged (example_env\<lparr>dbusAddon := False\<rparr>) example_module = example_module"
  using layout_sync_guards [of "example_env\<lparr>isKDE := False\<rparr>" example_module]
    layout_sync_guards [of example_env "example_module\<lparr>isWaylandSession := False\<rparr>"]
    layout_sync_guards [of example_env headless_module]
    layout_sync_guards [of "example_env\<lparr>dbusAddon := False\<rparr>" example_module]
  by (simp add: example_env_def headless_module_def)

lemma map_of_setValueByPath:
  "map_of (setValueByPath path v config) = (map_of config)(path \<mapsto> v)"
  by (induction config) (auto simp: fun_eq_iff)

text \<open>
  C9. When all four guards pass, the handler does exactly this, in this order: it reads
  \<^verbatim>\<open>kxkbrc\<close>; it sets the xkb parameters of the focus group of the default connection
  from the values the file has for \<^verbatim>\<open>Layout/Model\<close> and \<^verbatim>\<open>Layout/Options\<close> (the empty
  string where the file has none); it saves a configuration that differs from the one it
  read in the four keys \<^verbatim>\<open>Layout/LayoutList\<close> (the parsed layout),
  \<^verbatim>\<open>Layout/VariantList\<close> (the parsed variant), \<^verbatim>\<open>Layout/DisplayNames\<close> (empty) and
  \<^verbatim>\<open>Layout/Use\<close> (\<^verbatim>\<open>true\<close>) and in no other, so model and options are as they were; and it
  sends the signal \<^verbatim>\<open>reloadConfig\<close> of \<^verbatim>\<open>org.kde.keyboard\<close> at \<^verbatim>\<open>/Layouts\<close> with no
  argument.
\<close>

theorem layout_sync:
  assumes "isKDE env" and "isWaylandSession s"
    and "map_of (conns s) [] = Some connection" and "dbusAddon env"
  shows "\<exists>config.
     onInputMethodGroupChanged env s =
       s\<lparr>trace := trace s @
           [ReadAsIni ''kxkbrc'',
            SetXkbParameters (conn_group connection) (DEFAULT_XKB_RULES env)
              (case map_of (kxkbrc env) ''Layout/Model'' of Some m \<Rightarrow> m | None \<Rightarrow> [])
              (case map_of (kxkbrc env) ''Layout/Options'' of Some opt \<Rightarrow> opt | None \<Rightarrow> []),
            SafeSaveAsIni ''kxkbrc'' config,
            SendSignal ''/Layouts'' ''org.kde.keyboard'' ''reloadConfig'' []]\<rparr> \<and>
     map_of config =
       (map_of (kxkbrc env))
         (''Layout/LayoutList'' \<mapsto> fst (layoutAndVariant env),
          ''Layout/VariantList'' \<mapsto> snd (layoutAndVariant env),
          ''Layout/DisplayNames'' \<mapsto> [],
          ''Layout/Use'' \<mapsto> ''true'') \<and>
     map_of config ''Layout/Model'' = map_of (kxkbrc env) ''Layout/Model'' \<and>
     map_of config ''Layout/Options'' = map_of (kxkbrc env) ''Layout/Options''"
proof -
  let ?config = "setValueByPath ''Layout/Use'' ''true''
      (setValueByPath ''Layout/DisplayNames'' []
        (setValueByPath ''Layout/VariantList'' (snd (layoutAndVariant env))
          (setValueByPath ''Layout/LayoutList'' (fst (layoutAndVariant env)) (kxkbrc env))))"
  have saved: "map_of ?config =
       (map_of (kxkbrc env))
         (''Layout/LayoutList'' \<mapsto> fst (layoutAndVariant env),
          ''Layout/VariantList'' \<mapsto> snd (layoutAndVariant env),
          ''Layout/DisplayNames'' \<mapsto> [],
          ''Layout/Use'' \<mapsto> ''true'')"
    by (simp add: map_of_setValueByPath)
  have kept: "map_of ?config ''Layout/Model'' = map_of (kxkbrc env) ''Layout/Model''"
    "map_of ?config ''Layout/Options'' = map_of (kxkbrc env) ''Layout/Options''"
    by (simp_all add: saved)
  have "onInputMethodGroupChanged env s =
       s\<lparr>trace := trace s @
           [ReadAsIni ''kxkbrc'',
            SetXkbParameters (conn_group connection) (DEFAULT_XKB_RULES env)
              (case map_of (kxkbrc env) ''Layout/Model'' of Some m \<Rightarrow> m | None \<Rightarrow> [])
              (case map_of (kxkbrc env) ''Layout/Options'' of Some opt \<Rightarrow> opt | None \<Rightarrow> []),
            SafeSaveAsIni ''kxkbrc'' ?config,
            SendSignal ''/Layouts'' ''org.kde.keyboard'' ''reloadConfig'' []]\<rparr>"
    using assms
    by (simp add: onInputMethodGroupChanged_def Let_def log_event_def map_of_setValueByPath)
  with saved kept show ?thesis
    by blast
qed

theorem layout_sync_witness:
  "isKDE example_env \<and> isWaylandSession example_module \<and>
   map_of (conns example_module) [] = Some (example_conn [] 1) \<and> dbusAddon example_env \<and>
   onInputMethodGroupChanged example_env example_module =
     example_module\<lparr>trace :=
       [ReadAsIni ''kxkbrc'',
        SetXkbParameters ''wayland:'' ''evdev'' ''pc105'' [],
        SafeSaveAsIni ''kxkbrc''
          [(''Layout/Model'', ''pc105''), (''Layout/Use'', ''true''), (''Other/Key'', ''v''),
           (''Layout/LayoutList'', ''us''), (''Layout/VariantList'', ''dvorak''),
           (''Layout/DisplayNames'', [])],
        SendSignal ''/Layouts'' ''org.kde.keyboard'' ''reloadConfig'' []]\<rparr>"
  using layout_sync [of example_env example_module "example_conn [] 1"]
  by (simp add: example_env_def example_module_def example_conn_def
      onInputMethodGroupChanged_def Let_def log_event_def)

section \<open>openDisplay of a name that is already open\<close>

text \<open>
  C10, as the code has it. \<open>openDisplay\<close> of a name that is in the map returns normally
  and leaves the map as it is, whatever \<^verbatim>\<open>wl_display_connect\<close> answers. The created
  callbacks are called, once each and with the name, display and focus group of the
  connection that was already there, when the second connection could be constructed;
  when its constructor throws, no callback is called.
\<close>

theorem openDisplay_again:
  assumes "map_of (conns s) name = Some existing"
  shows "\<exists>s'. openDisplay wl_display_connect name s = Inr s' \<and>
     conns s' = conns s \<and>
     emitted s s' =
       (case wl_display_connect of
          None \<Rightarrow> []
        | Some d \<Rightarrow>
            map (\<lambda>callback. CreatedCallback callback (conn_name existing) (conn_display existing)
                              (conn_group existing)) (createdCallbacks s))"
  using assms
  by (cases wl_display_connect)
    (simp_all add: openDisplay_def emplace_def WaylandConnection_ctor_def Let_def
      onConnectionCreated_def emitted_def)

theorem openDisplay_again_witness:
  "map_of (conns example_module) ''wayland-1'' = Some (example_conn ''wayland-1'' 2) \<and>
   openDisplay (Some 7) ''wayland-1'' example_module =
     Inr (example_module\<lparr>trace := [CreatedCallback 10 ''wayland-1'' 2 ''wayland:wayland-1'']\<rparr>)"
  using openDisplay_again [of example_module "''wayland-1''" "example_conn ''wayland-1'' 2" "Some 7"]
  by (simp add: example_module_def example_conn_def openDisplay_def emplace_def
      WaylandConnection_ctor_def Let_def onConnectionCreated_def c_str_def)

text \<open>
  C10, as the claim states it, fails: the default display is open, a subscriber is in
  the created table, the display cannot be reached a second time, and \<open>openDisplay\<close>
  of the empty name leaves the state as it is, so it calls no created callback.
\<close>

theorem openDisplay_again_counterexample:
  "map_of (conns example_module) [] = Some (example_conn [] 1) \<and>
   createdCallbacks example_module = [10] \<and>
   openDisplay None [] example_module = Inr example_module"
  by (simp add: example_module_def openDisplay_def emplace_def WaylandConnection_ctor_def)

end
